theory Spec2Isabelle
  imports Main "HOL-Library.Word" "HOL-Library.List_Lexorder"
begin

unbundle bit_operations_syntax

section \<open>Values of the JavaScript runtime\<close>

text \<open>
  A JavaScript string is a sequence of UTF-16 code units; a \<open>Uint8Array\<close> is a sequence of
  bytes. String comparison (\<open><\<close> on strings, used by \<open>URLSearchParams.sort\<close>) is the
  lexicographic order on code units, which is the order that \<open>HOL-Library.List_Lexorder\<close> gives to lists.
\<close>

type_synonym byte = "8 word"
type_synonym bytes = "byte list"
type_synonym jsstring = "16 word list"

definition js :: "string \<Rightarrow> jsstring" where
  "js s = map (\<lambda>c. word_of_int (of_char c)) s"

text \<open>
  The exceptions that can leave the two entry points: the \<open>Error\<close> the repository throws
  itself (with its message), and the classes thrown by the libraries it calls.
\<close>

datatype error =
    Error string
  | TypeError
  | JWSInvalid
  | JWSSignatureVerificationFailed
  | SyntaxError
  | DataError

text \<open>
  The completion of a call: a value, an exception, or \<open>NotModelled\<close> where the call leaves
  the fragment of the libraries that this theory describes (it says where, at each use).
\<close>

datatype 'a completion = Returns 'a | Throws error | NotModelled

subsection \<open>\<open>TextEncoder\<close> and \<open>TextDecoder\<close> (UTF-8)\<close>

definition high_surrogate :: "16 word \<Rightarrow> bool" where
  "high_surrogate c \<longleftrightarrow> 0xD800 \<le> c \<and> c < 0xDC00"

definition low_surrogate :: "16 word \<Rightarrow> bool" where
  "low_surrogate c \<longleftrightarrow> 0xDC00 \<le> c \<and> c < 0xE000"

definition utf8_of_code_point :: "int \<Rightarrow> bytes" where
  "utf8_of_code_point u =
     (if u < 0x80 then [word_of_int u]
      else if u < 0x800 then [word_of_int (0xC0 + u div 64), word_of_int (0x80 + u mod 64)]
      else if u < 0x10000 then
        [word_of_int (0xE0 + u div 4096), word_of_int (0x80 + u div 64 mod 64),
         word_of_int (0x80 + u mod 64)]
      else
        [word_of_int (0xF0 + u div 262144), word_of_int (0x80 + u div 4096 mod 64),
         word_of_int (0x80 + u div 64 mod 64), word_of_int (0x80 + u mod 64)])"

text \<open>
  \<open>new TextEncoder().encode(s)\<close>: a surrogate pair is one code point, a lone surrogate is
  encoded as U+FFFD.
\<close>

fun TextEncoder_encode :: "jsstring \<Rightarrow> bytes" where
  "TextEncoder_encode [] = []"
| "TextEncoder_encode (c # cs) =
     (if high_surrogate c then
        (case cs of
           [] \<Rightarrow> utf8_of_code_point 0xFFFD
         | d # ds \<Rightarrow>
             if low_surrogate d
             then utf8_of_code_point (0x10000 + (uint c - 0xD800) * 1024 + (uint d - 0xDC00))
                    @ TextEncoder_encode ds
             else utf8_of_code_point 0xFFFD @ TextEncoder_encode cs)
      else if low_surrogate c then utf8_of_code_point 0xFFFD @ TextEncoder_encode cs
      else utf8_of_code_point (uint c) @ TextEncoder_encode cs)"

text \<open>
  The UTF-8 decoder of the Encoding standard, as \<open>new TextDecoder().decode(bytes)\<close> runs it
  (not fatal, byte order mark not ignored): the state is the code point being assembled,
  the number of continuation bytes still needed, and the bounds for the next byte.
  A byte that cannot continue a sequence yields U+FFFD and is then read again as the
  start of a sequence.
\<close>

type_synonym utf8_state = "int \<times> nat \<times> int \<times> int"

definition utf8_initial :: utf8_state where
  "utf8_initial = (0, 0, 0x80, 0xBF)"

definition utf8_lead :: "int \<Rightarrow> int list \<times> utf8_state" where
  "utf8_lead b =
     (if b \<le> 0x7F then ([b], utf8_initial)
      else if 0xC2 \<le> b \<and> b \<le> 0xDF then ([], (b mod 32, 1, 0x80, 0xBF))
      else if 0xE0 \<le> b \<and> b \<le> 0xEF then
        ([], (b mod 16, 2, if b = 0xE0 then 0xA0 else 0x80, if b = 0xED then 0x9F else 0xBF))
      else if 0xF0 \<le> b \<and> b \<le> 0xF4 then
        ([], (b mod 8, 3, if b = 0xF0 then 0x90 else 0x80, if b = 0xF4 then 0x8F else 0xBF))
      else ([0xFFFD], utf8_initial))"

fun utf8_decode :: "utf8_state \<Rightarrow> int list \<Rightarrow> int list" where
  "utf8_decode (cp, needed, lo, hi) [] = (if needed = 0 then [] else [0xFFFD])"
| "utf8_decode (cp, needed, lo, hi) (b # bs) =
     (if needed = 0 then fst (utf8_lead b) @ utf8_decode (snd (utf8_lead b)) bs
      else if b < lo \<or> hi < b then
        0xFFFD # fst (utf8_lead b) @ utf8_decode (snd (utf8_lead b)) bs
      else if needed = 1 then (cp * 64 + b mod 64) # utf8_decode utf8_initial bs
      else utf8_decode (cp * 64 + b mod 64, needed - 1, 0x80, 0xBF) bs)"

definition utf16_of_code_point :: "int \<Rightarrow> jsstring" where
  "utf16_of_code_point u =
     (if u < 0x10000 then [word_of_int u]
      else [word_of_int (0xD800 + (u - 0x10000) div 1024),
            word_of_int (0xDC00 + (u - 0x10000) mod 1024)])"

definition TextDecoder_decode :: "bytes \<Rightarrow> jsstring" where
  "TextDecoder_decode bs =
     (let cps = utf8_decode utf8_initial (map uint bs)
      in concat (map utf16_of_code_point
                   (case cps of [] \<Rightarrow> [] | c # r \<Rightarrow> if c = 0xFEFF then r else cps)))"

subsection \<open>\<open>base64url\<close> of jose\<close>

text \<open>
  \<open>base64url.encode\<close>: RFC 4648 section 5 without padding; a string argument is first
  encoded with \<open>TextEncoder\<close>.
\<close>

definition b64url_char :: "int \<Rightarrow> 16 word" where
  "b64url_char i =
     word_of_int (if i < 26 then 65 + i else if i < 52 then 71 + i else if i < 62 then i - 4
                  else if i = 62 then 45 else 95)"

fun base64url_encode :: "bytes \<Rightarrow> jsstring" where
  "base64url_encode (a # b # c # r) =
     b64url_char (uint a div 4)
       # b64url_char (uint a mod 4 * 16 + uint b div 16)
       # b64url_char (uint b mod 16 * 4 + uint c div 64)
       # b64url_char (uint c mod 64)
       # base64url_encode r"
| "base64url_encode [a, b] =
     [b64url_char (uint a div 4), b64url_char (uint a mod 4 * 16 + uint b div 16),
      b64url_char (uint b mod 16 * 4)]"
| "base64url_encode [a] = [b64url_char (uint a div 4), b64url_char (uint a mod 4 * 16)]"
| "base64url_encode [] = []"

definition base64url_encode_string :: "jsstring \<Rightarrow> jsstring" where
  "base64url_encode_string s = base64url_encode (TextEncoder_encode s)"

text \<open>
  \<open>base64url.decode\<close>, on a runtime without \<open>Uint8Array.fromBase64\<close>: the input has
  \<open>-\<close> and \<open>_\<close> replaced by \<open>+\<close> and \<open>/\<close>, white space (the class \<open>\s\<close>) removed, and
  is handed to \<open>atob\<close>; any failure of \<open>atob\<close> is rethrown as a \<open>TypeError\<close>.
\<close>

definition js_whitespace :: "16 word \<Rightarrow> bool" where
  "js_whitespace c \<longleftrightarrow>
     (9 \<le> c \<and> c \<le> 13) \<or> c = 0x20 \<or> c = 0xA0 \<or> c = 0x1680 \<or> (0x2000 \<le> c \<and> c \<le> 0x200A)
       \<or> c = 0x2028 \<or> c = 0x2029 \<or> c = 0x202F \<or> c = 0x205F \<or> c = 0x3000 \<or> c = 0xFEFF"

definition b64_value :: "16 word \<Rightarrow> int option" where
  "b64_value c =
     (if 65 \<le> c \<and> c \<le> 90 then Some (uint c - 65)
      else if 97 \<le> c \<and> c \<le> 122 then Some (uint c - 71)
      else if 48 \<le> c \<and> c \<le> 57 then Some (uint c + 4)
      else if c = 43 then Some 62
      else if c = 47 then Some 63
      else None)"

fun b64_groups :: "int list \<Rightarrow> bytes" where
  "b64_groups (a # b # c # d # r) =
     word_of_int (a * 4 + b div 16) # word_of_int (b mod 16 * 16 + c div 4)
       # word_of_int (c mod 4 * 64 + d) # b64_groups r"
| "b64_groups [a, b, c] = [word_of_int (a * 4 + b div 16), word_of_int (b mod 16 * 16 + c div 4)]"
| "b64_groups [a, b] = [word_of_int (a * 4 + b div 16)]"
| "b64_groups _ = []"

text \<open>
  \<open>atob\<close> (forgiving-base64 decode of the Infra standard) on the code units of its
  argument: ASCII white space is removed, one or two \<open>=\<close> at the end of an input whose
  length is a multiple of four are dropped, a length that leaves remainder one and any
  character outside the alphabet fail, and the bits left over after the last whole byte are
  discarded.
\<close>

definition strip_padding :: "jsstring \<Rightarrow> jsstring" where
  "strip_padding s =
     (if length s mod 4 = 0 \<and> s \<noteq> [] \<and> last s = 61
      then (if butlast s \<noteq> [] \<and> last (butlast s) = 61 then butlast (butlast s) else butlast s)
      else s)"

definition atob :: "jsstring \<Rightarrow> bytes option" where
  "atob s =
     (let data = strip_padding (filter (\<lambda>c. \<not> (c = 9 \<or> c = 10 \<or> c = 12 \<or> c = 13 \<or> c = 32)) s)
      in if length data mod 4 = 1 then None
         else if list_ex (\<lambda>c. b64_value c = None) data then None
         else Some (b64_groups (map (\<lambda>c. the (b64_value c)) data)))"

definition base64url_decode :: "jsstring \<Rightarrow> error + bytes" where
  "base64url_decode input =
     (let encoded = filter (\<lambda>c. \<not> js_whitespace c)
                      (map (\<lambda>c. if c = 45 then 43 else if c = 95 then 47 else c) input)
      in case atob encoded of None \<Rightarrow> Inl TypeError | Some bs \<Rightarrow> Inr bs)"

subsection \<open>HMAC with SHA-2, the \<open>crypto.subtle\<close> primitive behind \<open>HS256\<close>, \<open>HS384\<close> and \<open>HS512\<close>\<close>

text \<open>
  SHA-256, SHA-384 and SHA-512 of FIPS 180-4 and the HMAC construction of RFC 2104. Words
  are integers, cut back to the word size after each addition. The round constants are the
  leading bits of the fractional parts of the cube roots of the first primes, the initial
  states those of square roots; they are written in decimal.
\<close>

datatype sha = SHA256 | SHA384 | SHA512

fun word_bits :: "sha \<Rightarrow> nat" where
  "word_bits SHA256 = 32"
| "word_bits _ = 64"

fun block_len :: "sha \<Rightarrow> nat" where
  "block_len SHA256 = 64"
| "block_len _ = 128"

fun digest_len :: "sha \<Rightarrow> nat" where
  "digest_len SHA256 = 32"
| "digest_len SHA384 = 48"
| "digest_len SHA512 = 64"

definition K256 :: "int list" where
  "K256 = [
   1116352408, 1899447441, 3049323471, 3921009573, 961987163, 1508970993, 2453635748, 2870763221,
   3624381080, 310598401, 607225278, 1426881987, 1925078388, 2162078206, 2614888103, 3248222580,
   3835390401, 4022224774, 264347078, 604807628, 770255983, 1249150122, 1555081692, 1996064986,
   2554220882, 2821834349, 2952996808, 3210313671, 3336571891, 3584528711, 113926993, 338241895,
   666307205, 773529912, 1294757372, 1396182291, 1695183700, 1986661051, 2177026350, 2456956037,
   2730485921, 2820302411, 3259730800, 3345764771, 3516065817, 3600352804, 4094571909, 275423344,
   430227734, 506948616, 659060556, 883997877, 958139571, 1322822218, 1537002063, 1747873779,
   1955562222, 2024104815, 2227730452, 2361852424, 2428436474, 2756734187, 3204031479, 3329325298]"

definition K512 :: "int list" where
  "K512 = [
   4794697086780616226, 8158064640168781261, 13096744586834688815, 16840607885511220156,
   4131703408338449720, 6480981068601479193, 10538285296894168987, 12329834152419229976,
   15566598209576043074, 1334009975649890238, 2608012711638119052, 6128411473006802146,
   8268148722764581231, 9286055187155687089, 11230858885718282805, 13951009754708518548,
   16472876342353939154, 17275323862435702243, 1135362057144423861, 2597628984639134821,
   3308224258029322869, 5365058923640841347, 6679025012923562964, 8573033837759648693,
   10970295158949994411, 12119686244451234320, 12683024718118986047, 13788192230050041572,
   14330467153632333762, 15395433587784984357, 489312712824947311, 1452737877330783856,
   2861767655752347644, 3322285676063803686, 5560940570517711597, 5996557281743188959,
   7280758554555802590, 8532644243296465576, 9350256976987008742, 10552545826968843579,
   11727347734174303076, 12113106623233404929, 14000437183269869457, 14369950271660146224,
   15101387698204529176, 15463397548674623760, 17586052441742319658, 1182934255886127544,
   1847814050463011016, 2177327727835720531, 2830643537854262169, 3796741975233480872,
   4115178125766777443, 5681478168544905931, 6601373596472566643, 7507060721942968483,
   8399075790359081724, 8693463985226723168, 9568029438360202098, 10144078919501101548,
   10430055236837252648, 11840083180663258601, 13761210420658862357, 14299343276471374635,
   14566680578165727644, 15097957966210449927, 16922976911328602910, 17689382322260857208,
   500013540394364858, 748580250866718886, 1242879168328830382, 1977374033974150939,
   2944078676154940804, 3659926193048069267, 4368137639120453308, 4836135668995329356,
   5532061633213252278, 6448918945643986474, 6902733635092675308, 7801388544844847127]"

fun sha_K :: "sha \<Rightarrow> int list" where
  "sha_K SHA256 = K256"
| "sha_K _ = K512"

fun sha_H0 :: "sha \<Rightarrow> int list" where
  "sha_H0 SHA256 = [
   1779033703, 3144134277, 1013904242, 2773480762, 1359893119, 2600822924, 528734635, 1541459225]"
| "sha_H0 SHA384 = [
   14680500436340154072, 7105036623409894663, 10473403895298186519, 1526699215303891257,
   7436329637833083697, 10282925794625328401, 15784041429090275239, 5167115440072839076]"
| "sha_H0 SHA512 = [
   7640891576956012808, 13503953896175478587, 4354685564936845355, 11912009170470909681,
   5840696475078001361, 11170449401992604703, 2270897969802886507, 6620516959819538809]"

definition trunc :: "sha \<Rightarrow> int \<Rightarrow> int" where
  "trunc h x = take_bit (word_bits h) x"

definition rotr :: "sha \<Rightarrow> nat \<Rightarrow> int \<Rightarrow> int" where
  "rotr h n x = drop_bit n x + push_bit (word_bits h - n) (take_bit n x)"

definition Ch :: "int \<Rightarrow> int \<Rightarrow> int \<Rightarrow> int" where
  "Ch x y z = (x AND y) XOR (NOT x AND z)"

definition Maj :: "int \<Rightarrow> int \<Rightarrow> int \<Rightarrow> int" where
  "Maj x y z = (x AND y) XOR (x AND z) XOR (y AND z)"

fun Sigma0 :: "sha \<Rightarrow> int \<Rightarrow> int" where
  "Sigma0 SHA256 x = rotr SHA256 2 x XOR rotr SHA256 13 x XOR rotr SHA256 22 x"
| "Sigma0 h x = rotr h 28 x XOR rotr h 34 x XOR rotr h 39 x"

fun Sigma1 :: "sha \<Rightarrow> int \<Rightarrow> int" where
  "Sigma1 SHA256 x = rotr SHA256 6 x XOR rotr SHA256 11 x XOR rotr SHA256 25 x"
| "Sigma1 h x = rotr h 14 x XOR rotr h 18 x XOR rotr h 41 x"

fun sigma0 :: "sha \<Rightarrow> int \<Rightarrow> int" where
  "sigma0 SHA256 x = rotr SHA256 7 x XOR rotr SHA256 18 x XOR drop_bit 3 x"
| "sigma0 h x = rotr h 1 x XOR rotr h 8 x XOR drop_bit 7 x"

fun sigma1 :: "sha \<Rightarrow> int \<Rightarrow> int" where
  "sigma1 SHA256 x = rotr SHA256 17 x XOR rotr SHA256 19 x XOR drop_bit 10 x"
| "sigma1 h x = rotr h 19 x XOR rotr h 61 x XOR drop_bit 6 x"

text \<open>Big-endian reading and writing of words.\<close>

definition be_int :: "bytes \<Rightarrow> int" where
  "be_int bs = foldl (\<lambda>acc b. acc * 256 + uint b) 0 bs"

fun be_bytes :: "nat \<Rightarrow> int \<Rightarrow> bytes" where
  "be_bytes 0 v = []"
| "be_bytes (Suc n) v = word_of_int (drop_bit (8 * n) v) # be_bytes n v"

fun chunks :: "nat \<Rightarrow> nat \<Rightarrow> 'a list \<Rightarrow> 'a list list" where
  "chunks 0 n xs = []"
| "chunks (Suc k) n xs = take n xs # chunks k n (drop n xs)"

text \<open>The message schedule, newest word first: \<open>ws = [W(t-1), W(t-2), \<dots>]\<close>.\<close>

fun schedule :: "sha \<Rightarrow> nat \<Rightarrow> int list \<Rightarrow> int list" where
  "schedule h 0 ws = ws"
| "schedule h (Suc n) ws =
     schedule h n (trunc h (sigma1 h (ws ! 1) + ws ! 6 + sigma0 h (ws ! 14) + ws ! 15) # ws)"

definition round_step :: "sha \<Rightarrow> int \<Rightarrow> int \<Rightarrow> int list \<Rightarrow> int list" where
  "round_step h t1 t2 st =
     [trunc h (t1 + t2), st ! 0, st ! 1, st ! 2, trunc h (st ! 3 + t1), st ! 4, st ! 5, st ! 6]"

fun rounds :: "sha \<Rightarrow> int list \<Rightarrow> int list \<Rightarrow> int list \<Rightarrow> int list" where
  "rounds h (k # ks) (w # ws) st =
     rounds h ks ws
       (round_step h (st ! 7 + Sigma1 h (st ! 4) + Ch (st ! 4) (st ! 5) (st ! 6) + k + w)
                     (Sigma0 h (st ! 0) + Maj (st ! 0) (st ! 1) (st ! 2)) st)"
| "rounds h _ _ st = st"

definition compress :: "sha \<Rightarrow> int list \<Rightarrow> bytes \<Rightarrow> int list" where
  "compress h st blk =
     map (\<lambda>(x, y). trunc h (x + y))
       (zip st (rounds h (sha_K h)
          (rev (schedule h (length (sha_K h) - 16)
             (rev (map be_int (chunks 16 (word_bits h div 8) blk))))) st))"

definition sha_pad :: "sha \<Rightarrow> bytes \<Rightarrow> bytes" where
  "sha_pad h m =
     m @ [0x80]
       @ replicate ((2 * block_len h - 1 - word_bits h div 4 - length m mod block_len h) mod block_len h) 0
       @ be_bytes (word_bits h div 4) (8 * int (length m))"

definition sha2 :: "sha \<Rightarrow> bytes \<Rightarrow> bytes" where
  "sha2 h m =
     (let p = sha_pad h m
      in take (digest_len h)
           (concat (map (be_bytes (word_bits h div 8))
              (foldl (compress h) (sha_H0 h) (chunks (length p div block_len h) (block_len h) p)))))"

definition hmac :: "sha \<Rightarrow> bytes \<Rightarrow> bytes \<Rightarrow> bytes" where
  "hmac h key msg =
     (let k0 = (if block_len h < length key then sha2 h key else key);
          k = k0 @ replicate (block_len h - length k0) 0
      in sha2 h (map (\<lambda>b. b XOR 0x5c) k @ sha2 h (map (\<lambda>b. b XOR 0x36) k @ msg)))"

subsection \<open>Objects and \<open>JSON\<close>\<close>

text \<open>
  An ordinary object with string keys: its properties in creation order. Defining a
  property that exists replaces its value in place; a new one goes to the end
  (\<open>CreateDataProperty\<close>).
\<close>

type_synonym 'v jsobject = "(jsstring \<times> 'v) list"

fun define_property :: "'v jsobject \<Rightarrow> jsstring \<Rightarrow> 'v \<Rightarrow> 'v jsobject" where
  "define_property [] k v = [(k, v)]"
| "define_property ((k', v') # ps) k v =
     (if k' = k then (k, v) # ps else (k', v') # define_property ps k v)"

definition Object_fromEntries :: "(jsstring \<times> 'v) list \<Rightarrow> 'v jsobject" where
  "Object_fromEntries entries = foldl (\<lambda>obj (k, v). define_property obj k v) [] entries"

text \<open>
  The order in which the properties of an object are enumerated
  (\<open>OrdinaryOwnPropertyKeys\<close>): the keys that are array indices (canonical decimal
  numerals up to \<open>2^32 - 2\<close>) in ascending numeric order, then the other keys in creation
  order.
\<close>

definition decimal_value :: "jsstring \<Rightarrow> int" where
  "decimal_value s = foldl (\<lambda>acc c. acc * 10 + (uint c - 48)) 0 s"

definition array_index :: "jsstring \<Rightarrow> bool" where
  "array_index s \<longleftrightarrow>
     s \<noteq> [] \<and> list_all (\<lambda>c. 48 \<le> c \<and> c \<le> 57) s \<and> (s = [48] \<or> hd s \<noteq> 48)
       \<and> decimal_value s \<le> 4294967294"

definition own_entries :: "'v jsobject \<Rightarrow> (jsstring \<times> 'v) list" where
  "own_entries obj =
     sort_key (\<lambda>p. decimal_value (fst p)) (filter (\<lambda>p. array_index (fst p)) obj)
       @ filter (\<lambda>p. \<not> array_index (fst p)) obj"

text \<open>\<open>QuoteJSONString\<close> of \<open>JSON.stringify\<close> (well-formed, ECMAScript 2019).\<close>

definition hex_digit :: "int \<Rightarrow> 16 word" where
  "hex_digit n = word_of_int (if n < 10 then 48 + n else 87 + n)"

definition unicode_escape :: "int \<Rightarrow> jsstring" where
  "unicode_escape u =
     [0x5C, 0x75, hex_digit (u div 4096), hex_digit (u div 256 mod 16), hex_digit (u div 16 mod 16),
      hex_digit (u mod 16)]"

fun quote_units :: "jsstring \<Rightarrow> jsstring" where
  "quote_units [] = []"
| "quote_units (c # cs) =
     (if c = 0x08 then [0x5C, 0x62] @ quote_units cs
      else if c = 0x09 then [0x5C, 0x74] @ quote_units cs
      else if c = 0x0A then [0x5C, 0x6E] @ quote_units cs
      else if c = 0x0C then [0x5C, 0x66] @ quote_units cs
      else if c = 0x0D then [0x5C, 0x72] @ quote_units cs
      else if c = 0x22 then [0x5C, 0x22] @ quote_units cs
      else if c = 0x5C then [0x5C, 0x5C] @ quote_units cs
      else if c < 0x20 then unicode_escape (uint c) @ quote_units cs
      else if high_surrogate c then
        (case cs of
           [] \<Rightarrow> unicode_escape (uint c)
         | d # ds \<Rightarrow>
             if low_surrogate d then c # d # quote_units ds
             else unicode_escape (uint c) @ quote_units cs)
      else if low_surrogate c then unicode_escape (uint c) @ quote_units cs
      else c # quote_units cs)"

definition QuoteJSONString :: "jsstring \<Rightarrow> jsstring" where
  "QuoteJSONString s = [0x22] @ quote_units s @ [0x22]"

fun join_comma :: "jsstring list \<Rightarrow> jsstring" where
  "join_comma [] = []"
| "join_comma [s] = s"
| "join_comma (s # t # r) = s @ [0x2C] @ join_comma (t # r)"

text \<open>\<open>JSON.stringify\<close> of an object whose property values are strings.\<close>

definition JSON_stringify :: "jsstring jsobject \<Rightarrow> jsstring" where
  "JSON_stringify obj =
     [0x7B] @ join_comma (map (\<lambda>(k, v). QuoteJSONString k @ [0x3A] @ QuoteJSONString v) (own_entries obj))
       @ [0x7D]"

text \<open>
  \<open>JSON.parse\<close>: a scanner that reads one code unit at a time, then a parser that reads
  one token at a time with a stack of the arrays and objects that are still open. A number
  is kept as its text.
\<close>

datatype json =
    JNull
  | JBool bool
  | JNumber jsstring
  | JString jsstring
  | JArray "json list"
  | JObject "(jsstring \<times> json) list"

datatype token =
    TLBrace | TRBrace | TLBracket | TRBracket | TColon | TComma
  | TString jsstring | TNumber jsstring | TTrue | TFalse | TNull

datatype number_part = NMinus | NZero | NInt | NPoint | NFrac | NExp | NExpSign | NExpDigits

datatype scan =
    SStart
  | SString jsstring
  | SEscape jsstring
  | SUnicode jsstring "int list"
  | SNumber number_part jsstring
  | SLiteral jsstring token

definition is_digit :: "16 word \<Rightarrow> bool" where
  "is_digit c \<longleftrightarrow> 48 \<le> c \<and> c \<le> 57"

definition hex_value :: "16 word \<Rightarrow> int option" where
  "hex_value c =
     (if 48 \<le> c \<and> c \<le> 57 then Some (uint c - 48)
      else if 65 \<le> c \<and> c \<le> 70 then Some (uint c - 55)
      else if 97 \<le> c \<and> c \<le> 102 then Some (uint c - 87)
      else None)"

definition scan_start :: "16 word \<Rightarrow> (scan \<times> token list) option" where
  "scan_start c =
     (if c = 0x20 \<or> c = 0x09 \<or> c = 0x0A \<or> c = 0x0D then Some (SStart, [])
      else if c = 0x7B then Some (SStart, [TLBrace])
      else if c = 0x7D then Some (SStart, [TRBrace])
      else if c = 0x5B then Some (SStart, [TLBracket])
      else if c = 0x5D then Some (SStart, [TRBracket])
      else if c = 0x3A then Some (SStart, [TColon])
      else if c = 0x2C then Some (SStart, [TComma])
      else if c = 0x22 then Some (SString [], [])
      else if c = 0x2D then Some (SNumber NMinus [c], [])
      else if c = 0x30 then Some (SNumber NZero [c], [])
      else if is_digit c then Some (SNumber NInt [c], [])
      else if c = 0x74 then Some (SLiteral (js ''rue'') TTrue, [])
      else if c = 0x66 then Some (SLiteral (js ''alse'') TFalse, [])
      else if c = 0x6E then Some (SLiteral (js ''ull'') TNull, [])
      else None)"

definition number_end :: "jsstring \<Rightarrow> 16 word \<Rightarrow> (scan \<times> token list) option" where
  "number_end acc c =
     (case scan_start c of
        None \<Rightarrow> None
      | Some (s, ts) \<Rightarrow> Some (s, TNumber (rev acc) # ts))"

definition scan_number :: "number_part \<Rightarrow> jsstring \<Rightarrow> 16 word \<Rightarrow> (scan \<times> token list) option" where
  "scan_number part acc c =
     (let digit = is_digit c; point = (c = 0x2E); e = (c = 0x65 \<or> c = 0x45);
          sign = (c = 0x2B \<or> c = 0x2D)
      in case part of
           NMinus \<Rightarrow>
             if c = 0x30 then Some (SNumber NZero (c # acc), [])
             else if digit then Some (SNumber NInt (c # acc), [])
             else None
         | NZero \<Rightarrow>
             if point then Some (SNumber NPoint (c # acc), [])
             else if e then Some (SNumber NExp (c # acc), [])
             else number_end acc c
         | NInt \<Rightarrow>
             if digit then Some (SNumber NInt (c # acc), [])
             else if point then Some (SNumber NPoint (c # acc), [])
             else if e then Some (SNumber NExp (c # acc), [])
             else number_end acc c
         | NPoint \<Rightarrow> if digit then Some (SNumber NFrac (c # acc), []) else None
         | NFrac \<Rightarrow>
             if digit then Some (SNumber NFrac (c # acc), [])
             else if e then Some (SNumber NExp (c # acc), [])
             else number_end acc c
         | NExp \<Rightarrow>
             if sign then Some (SNumber NExpSign (c # acc), [])
             else if digit then Some (SNumber NExpDigits (c # acc), [])
             else None
         | NExpSign \<Rightarrow> if digit then Some (SNumber NExpDigits (c # acc), []) else None
         | NExpDigits \<Rightarrow>
             if digit then Some (SNumber NExpDigits (c # acc), []) else number_end acc c)"

definition scan_escape :: "jsstring \<Rightarrow> 16 word \<Rightarrow> (scan \<times> token list) option" where
  "scan_escape acc c =
     (if c = 0x22 \<or> c = 0x5C \<or> c = 0x2F then Some (SString (c # acc), [])
      else if c = 0x62 then Some (SString (0x08 # acc), [])
      else if c = 0x66 then Some (SString (0x0C # acc), [])
      else if c = 0x6E then Some (SString (0x0A # acc), [])
      else if c = 0x72 then Some (SString (0x0D # acc), [])
      else if c = 0x74 then Some (SString (0x09 # acc), [])
      else if c = 0x75 then Some (SUnicode acc [], [])
      else None)"

fun scan_step :: "scan \<Rightarrow> 16 word \<Rightarrow> (scan \<times> token list) option" where
  "scan_step SStart c = scan_start c"
| "scan_step (SString acc) c =
     (if c = 0x22 then Some (SStart, [TString (rev acc)])
      else if c = 0x5C then Some (SEscape acc, [])
      else if c < 0x20 then None
      else Some (SString (c # acc), []))"
| "scan_step (SEscape acc) c = scan_escape acc c"
| "scan_step (SUnicode acc ds) c =
     (case hex_value c of
        None \<Rightarrow> None
      | Some d \<Rightarrow>
          if length ds = 3
          then Some (SString (word_of_int (foldl (\<lambda>a x. a * 16 + x) 0 (ds @ [d])) # acc), [])
          else Some (SUnicode acc (ds @ [d]), []))"
| "scan_step (SNumber part acc) c = scan_number part acc c"
| "scan_step (SLiteral [] t) c = None"
| "scan_step (SLiteral (r # rs) t) c =
     (if c \<noteq> r then None
      else if rs = [] then Some (SStart, [t])
      else Some (SLiteral rs t, []))"

fun scan_end :: "scan \<Rightarrow> token list option" where
  "scan_end SStart = Some []"
| "scan_end (SNumber part acc) =
     (if part = NZero \<or> part = NInt \<or> part = NFrac \<or> part = NExpDigits
      then Some [TNumber (rev acc)] else None)"
| "scan_end _ = None"

fun scan_all :: "scan \<Rightarrow> jsstring \<Rightarrow> token list option" where
  "scan_all s [] = scan_end s"
| "scan_all s (c # cs) =
     (case scan_step s c of
        None \<Rightarrow> None
      | Some (s', ts) \<Rightarrow> (case scan_all s' cs of None \<Rightarrow> None | Some r \<Rightarrow> Some (ts @ r)))"

datatype frame = FArray "json list" | FObject "(jsstring \<times> json) list" jsstring

datatype expect =
    EValue
  | EArrayFirst
  | EObjectFirst
  | EKey "(jsstring \<times> json) list"
  | EColon "(jsstring \<times> json) list" jsstring
  | EDone json

datatype beginning = Atom json | OpenArray | OpenObject

fun value_start :: "token \<Rightarrow> beginning option" where
  "value_start (TString s) = Some (Atom (JString s))"
| "value_start (TNumber s) = Some (Atom (JNumber s))"
| "value_start TTrue = Some (Atom (JBool True))"
| "value_start TFalse = Some (Atom (JBool False))"
| "value_start TNull = Some (Atom JNull)"
| "value_start TLBracket = Some OpenArray"
| "value_start TLBrace = Some OpenObject"
| "value_start _ = None"

fun after_beginning :: "beginning option \<Rightarrow> expect option" where
  "after_beginning None = None"
| "after_beginning (Some (Atom v)) = Some (EDone v)"
| "after_beginning (Some OpenArray) = Some EArrayFirst"
| "after_beginning (Some OpenObject) = Some EObjectFirst"

text \<open>One token: the next expectation and the new stack, or \<open>None\<close> for a syntax error.\<close>

fun parse_step :: "expect \<Rightarrow> frame list \<Rightarrow> token \<Rightarrow> (expect \<times> frame list) option" where
  "parse_step EValue st t = map_option (\<lambda>e. (e, st)) (after_beginning (value_start t))"
| "parse_step EArrayFirst st t =
     (if t = TRBracket then Some (EDone (JArray []), st)
      else map_option (\<lambda>e. (e, FArray [] # st)) (after_beginning (value_start t)))"
| "parse_step EObjectFirst st t =
     (case t of
        TRBrace \<Rightarrow> Some (EDone (JObject []), st)
      | TString k \<Rightarrow> Some (EColon [] k, st)
      | _ \<Rightarrow> None)"
| "parse_step (EKey es) st t = (case t of TString k \<Rightarrow> Some (EColon es k, st) | _ \<Rightarrow> None)"
| "parse_step (EColon es k) st t = (if t = TColon then Some (EValue, FObject es k # st) else None)"
| "parse_step (EDone v) [] t = None"
| "parse_step (EDone v) (FArray vs # st) t =
     (if t = TComma then Some (EValue, FArray (v # vs) # st)
      else if t = TRBracket then Some (EDone (JArray (rev (v # vs))), st)
      else None)"
| "parse_step (EDone v) (FObject es k # st) t =
     (if t = TComma then Some (EKey (define_property es k v), st)
      else if t = TRBrace then Some (EDone (JObject (define_property es k v)), st)
      else None)"

fun parse_tokens :: "expect \<Rightarrow> frame list \<Rightarrow> token list \<Rightarrow> json option" where
  "parse_tokens e st [] = (case (e, st) of (EDone v, []) \<Rightarrow> Some v | _ \<Rightarrow> None)"
| "parse_tokens e st (t # ts) =
     (case parse_step e st t of None \<Rightarrow> None | Some (e', st') \<Rightarrow> parse_tokens e' st' ts)"

definition JSON_parse :: "jsstring \<Rightarrow> error + json" where
  "JSON_parse text =
     (case scan_all SStart text of
        None \<Rightarrow> Inl SyntaxError
      | Some ts \<Rightarrow> (case parse_tokens EValue [] ts of None \<Rightarrow> Inl SyntaxError | Some v \<Rightarrow> Inr v))"

subsection \<open>\<open>URLSearchParams\<close>\<close>

text \<open>
  A \<open>URLSearchParams\<close> object is a mutable list of name-value pairs, duplicates allowed.
  Objects live in a heap and are passed by reference; a reference is the object's index in
  the heap, and \<open>new\<close> appends; a reference the program holds is always below the length
  of the heap. The pairs of an existing object are scalar-value strings already, so copying
  them converts nothing.
\<close>

type_synonym pairs = "(jsstring \<times> jsstring) list"
type_synonym ref = nat
type_synonym heap = "pairs list"

definition URLSearchParams_copy :: "heap \<Rightarrow> ref \<Rightarrow> ref \<times> heap" where
  "URLSearchParams_copy h r = (length h, h @ [h ! r])"

text \<open>
  \<open>sort()\<close>: in place, by name, comparing code units, keeping the relative order of pairs
  with equal names.
\<close>

definition URLSearchParams_sort :: "heap \<Rightarrow> ref \<Rightarrow> heap" where
  "URLSearchParams_sort h r = h[r := sort_key fst (h ! r)]"

text \<open>
  Conversion to a scalar-value string (\<open>USVString\<close>): a surrogate that is not part of a
  pair becomes U+FFFD.
\<close>

fun toUSVString :: "jsstring \<Rightarrow> jsstring" where
  "toUSVString [] = []"
| "toUSVString (c # cs) =
     (if high_surrogate c then
        (case cs of
           [] \<Rightarrow> [0xFFFD]
         | d # ds \<Rightarrow>
             if low_surrogate d then c # d # toUSVString ds else 0xFFFD # toUSVString cs)
      else if low_surrogate c then 0xFFFD # toUSVString cs
      else c # toUSVString cs)"

text \<open>
  \<open>new URLSearchParams(value)\<close> for a value that \<open>JSON.parse\<close> returned. Described here:
  an object all of whose property values are strings, which is read as a record, its
  properties in enumeration order. Not described: every other value (numbers need
  \<open>Number::toString\<close>, strings the \<open>application/x-www-form-urlencoded\<close> parser).
\<close>

fun string_entries :: "(jsstring \<times> json) list \<Rightarrow> pairs option" where
  "string_entries [] = Some []"
| "string_entries ((k, JString v) # r) = map_option (\<lambda>ps. (k, v) # ps) (string_entries r)"
| "string_entries _ = None"

definition URLSearchParams_of_json :: "json \<Rightarrow> pairs completion" where
  "URLSearchParams_of_json v =
     (case v of
        JObject es \<Rightarrow>
          (case string_entries es of
             None \<Rightarrow> NotModelled
           | Some ps \<Rightarrow>
               Returns (Object_fromEntries (map (\<lambda>(k, v). (toUSVString k, toUSVString v)) (own_entries ps))))
      | _ \<Rightarrow> NotModelled)"

subsection \<open>Compact JWS of jose\<close>

text \<open>
  The MAC is a parameter of the model, \<open>mac hash key data\<close>; the runtime's is \<^const>\<open>hmac\<close>.
  \<open>crypto.subtle.importKey\<close> refuses an HMAC key of length zero with a \<open>DataError\<close>.
\<close>

type_synonym mac = "sha \<Rightarrow> bytes \<Rightarrow> bytes \<Rightarrow> bytes"

fun split_on :: "16 word \<Rightarrow> jsstring \<Rightarrow> jsstring list" where
  "split_on sep [] = [[]]"
| "split_on sep (c # cs) =
     (if c = sep then [] # split_on sep cs
      else (case split_on sep cs of [] \<Rightarrow> [[c]] | s # r \<Rightarrow> (c # s) # r))"

definition signing_input :: "jsstring \<Rightarrow> jsstring \<Rightarrow> bytes" where
  "signing_input protected payload =
     TextEncoder_encode protected @ TextEncoder_encode [0x2E] @ TextEncoder_encode payload"

text \<open>
  \<open>new CompactSign(payload).setProtectedHeader({ alg: "HS256" }).sign(key)\<close>: the argument
  of the constructor is the payload, the argument of \<open>sign\<close> is the key.
\<close>

definition CompactSign_HS256 :: "mac \<Rightarrow> bytes \<Rightarrow> bytes \<Rightarrow> jsstring completion" where
  \<open>CompactSign_HS256 m payload key =
     (let protected = base64url_encode_string (js ''{"alg":"HS256"}'');
          encoded = base64url_encode payload
      in if key = [] then Throws DataError
         else Returns (protected @ [0x2E] @ encoded @ [0x2E]
                         @ base64url_encode (m SHA256 key (signing_input protected encoded))))\<close>

text \<open>
  The algorithm a protected header selects for a key that is a \<open>Uint8Array\<close>, when no
  list of allowed algorithms is given. \<open>Throws JWSInvalid\<close>: the header is not the
  base64url of JSON text, or has no \<open>alg\<close> that is a non-empty string. Not described: a
  header with a \<open>crit\<close> member, and an \<open>alg\<close> other than the three HMAC algorithms.
\<close>

definition header_algorithm :: "jsstring \<Rightarrow> sha completion" where
  "header_algorithm protected =
     (if protected = [] then Throws JWSInvalid
      else case base64url_decode protected of
        Inl e \<Rightarrow> Throws JWSInvalid
      | Inr bs \<Rightarrow>
          (case JSON_parse (TextDecoder_decode bs) of
             Inl e \<Rightarrow> Throws JWSInvalid
           | Inr (JObject es) \<Rightarrow>
               if map_of es (js ''crit'') \<noteq> None then NotModelled
               else (case map_of es (js ''alg'') of
                       Some (JString a) \<Rightarrow>
                         if a = [] then Throws JWSInvalid
                         else if a = js ''HS256'' then Returns SHA256
                         else if a = js ''HS384'' then Returns SHA384
                         else if a = js ''HS512'' then Returns SHA512
                         else NotModelled
                     | _ \<Rightarrow> Throws JWSInvalid)
           | Inr _ \<Rightarrow> Throws JWSInvalid))"

text \<open>\<open>compactVerify(jws, key)\<close> for a string and a \<open>Uint8Array\<close>: the verified payload.\<close>

definition compactVerify :: "mac \<Rightarrow> jsstring \<Rightarrow> bytes \<Rightarrow> bytes completion" where
  "compactVerify m jws key =
     (case split_on 0x2E jws of
        [protected, payload, signature] \<Rightarrow>
          (case header_algorithm protected of
             Throws e \<Rightarrow> Throws e
           | NotModelled \<Rightarrow> NotModelled
           | Returns h \<Rightarrow>
               (case base64url_decode signature of
                  Inl e \<Rightarrow> Throws JWSInvalid
                | Inr s \<Rightarrow>
                    if key = [] then Throws DataError
                    else if m h key (signing_input protected payload) \<noteq> s
                    then Throws JWSSignatureVerificationFailed
                    else (case base64url_decode payload of
                            Inl e \<Rightarrow> Throws JWSInvalid
                          | Inr p \<Rightarrow> Returns p)))
      | _ \<Rightarrow> Throws JWSInvalid)"

section \<open>The library: \<open>src/lib/src/index.ts\<close>\<close>

text \<open>
  A parameter declared \<open>secret: string | undefined = process.env.SEARCHPARAMS_SECRET\<close>: the
  argument when one is passed, else the value of the environment variable.
\<close>

definition secret_parameter :: "jsstring option \<Rightarrow> jsstring option \<Rightarrow> jsstring option" where
  "secret_parameter env arg = (case arg of None \<Rightarrow> env | Some s \<Rightarrow> Some s)"

text \<open>\<open>!secret\<close>: the secret is \<open>undefined\<close> or the empty string.\<close>

definition falsy :: "jsstring option \<Rightarrow> bool" where
  "falsy secret \<longleftrightarrow> secret = None \<or> secret = Some []"

definition serialize ::
  "mac \<Rightarrow> jsstring option \<Rightarrow> heap \<Rightarrow> ref \<Rightarrow> jsstring option \<Rightarrow> jsstring completion \<times> heap" where
  "serialize m env h searchParams arg =
     (let secret = secret_parameter env arg in
      if falsy secret
      then (Throws (Error ''next-static-searchparams: Can not serialize due to missing secret''), h)
      else
        let (sortedParams, h1) = URLSearchParams_copy h searchParams;
            h2 = URLSearchParams_sort h1 sortedParams;
            stringifiedParams = JSON_stringify (Object_fromEntries (h2 ! sortedParams));
            encodedParams = base64url_encode_string stringifiedParams
        in (CompactSign_HS256 m (TextEncoder_encode (the secret)) (TextEncoder_encode encodedParams), h2))"

text \<open>
  \<open>parseFunction\<close> is the caller's: it gets the heap and the reference, and returns a
  reference and the heap as it left it.
\<close>

definition precomputeSearchParams ::
  "mac \<Rightarrow> jsstring option \<Rightarrow> heap \<Rightarrow> ref \<Rightarrow> (heap \<Rightarrow> ref \<Rightarrow> ref \<times> heap)
     \<Rightarrow> jsstring completion \<times> heap" where
  "precomputeSearchParams m env h searchParams parseFunction =
     (let (params, h1) = parseFunction h searchParams in serialize m env h1 params None)"

definition identity :: "heap \<Rightarrow> ref \<Rightarrow> ref \<times> heap" where
  "identity h params = (params, h)"

text \<open>\<open>decrypt\<close> returns a new object; the model returns its pairs.\<close>

definition decrypt :: "mac \<Rightarrow> jsstring option \<Rightarrow> jsstring \<Rightarrow> jsstring option \<Rightarrow> pairs completion" where
  "decrypt m env code arg =
     (let secret = secret_parameter env arg in
      if falsy secret
      then Throws (Error ''next-static-searchparams: Can not decrypt due to missing secret'')
      else case base64url_decode (the secret) of
        Inl e \<Rightarrow> Throws e
      | Inr key \<Rightarrow>
          (case compactVerify m code key of
             Throws e \<Rightarrow> Throws e
           | NotModelled \<Rightarrow> NotModelled
           | Returns payload \<Rightarrow>
               (case JSON_parse (TextDecoder_decode payload) of
                  Inl e \<Rightarrow> Throws e
                | Inr v \<Rightarrow> URLSearchParams_of_json v)))"

section \<open>Properties\<close>

subsection \<open>A missing secret\<close>

text \<open>
  Claim C5. When the secret is absent or the empty string, neither passed nor found in the
  environment, \<open>serialize\<close> (and so \<open>precomputeSearchParams\<close>) and \<open>decrypt\<close> throw the
  library's own \<open>Error\<close>. The outcome is the same for every MAC function and leaves the
  heap as it was: the check comes before any cryptographic operation.
\<close>

theorem missing_secret_throws:
  assumes "falsy (secret_parameter env arg)"
  shows "serialize m env h searchParams arg =
           (Throws (Error ''next-static-searchparams: Can not serialize due to missing secret''), h)
       \<and> decrypt m env code arg =
           Throws (Error ''next-static-searchparams: Can not decrypt due to missing secret'')
       \<and> (arg = None \<longrightarrow> precomputeSearchParams m env h searchParams identity =
           (Throws (Error ''next-static-searchparams: Can not serialize due to missing secret''), h))"
  using assms by (auto simp: serialize_def decrypt_def precomputeSearchParams_def identity_def Let_def)

theorem missing_secret_throws_witness:
  "falsy (secret_parameter (Some []) None)
   \<and> serialize hmac (Some []) [[]] 0 None =
           (Throws (Error ''next-static-searchparams: Can not serialize due to missing secret''), [[]])
   \<and> decrypt hmac (Some []) (js ''not-a-token'') None =
           Throws (Error ''next-static-searchparams: Can not decrypt due to missing secret'')
   \<and> precomputeSearchParams hmac (Some []) [[]] 0 identity =
           (Throws (Error ''next-static-searchparams: Can not serialize due to missing secret''), [[]])"
proof -
  have f: "falsy (secret_parameter (Some []) None)"
    by (simp add: falsy_def secret_parameter_def)
  show ?thesis
    using f missing_secret_throws [OF f, of hmac "[[]]" 0 "js ''not-a-token''"] by simp
qed

end
